theory Spec2Isabelle
  imports Main "HOL-Library.Word"
begin

section \<open>Line scan and diagnostics (src/endorphin.js)\<close>

text \<open>
  A JavaScript string is modelled as a \<^typ>\<open>string\<close>: a list of code units, indexed
  from 0. Reading \<open>text[i]\<close> at \<open>i = text.length\<close> gives \<open>undefined\<close>, which is
  different from every character; the model writes that bound check out.
\<close>

record Line =
  start :: nat
  end' :: nat

definition CR :: char where
  "CR = CHR 0x0D"

definition LF :: char where
  "LF = CHR 0x0A"

text \<open>
  The \<open>while (end < text.length)\<close> loop of \<open>getLines\<close>, with the local variables
  \<open>start\<close>, \<open>end\<close> and \<open>result\<close> as arguments; the final \<open>if (start !== end)\<close>
  is the exit branch.
\<close>

function getLines_loop :: "string \<Rightarrow> nat \<Rightarrow> nat \<Rightarrow> Line list \<Rightarrow> Line list" where
  "getLines_loop text s e result =
     (if e < length text then
        (let ch = text ! e; e1 = e + 1 in
         if ch = CR \<or> ch = LF then
           (let e2 = (if ch = CR \<and> e1 < length text \<and> text ! e1 = LF then e1 + 1 else e1)
            in getLines_loop text e2 e2 (result @ [\<lparr>start = s, end' = e2\<rparr>]))
         else getLines_loop text s e1 result)
      else if s \<noteq> e then result @ [\<lparr>start = s, end' = e\<rparr>] else result)"
  by pat_completeness auto
termination
  by (relation "measure (\<lambda>(text, s, e, result). length text - e)") auto

declare getLines_loop.simps [simp del]

definition getLines :: "string \<Rightarrow> Line list" where
  "getLines text = getLines_loop text 0 0 []"

text \<open>
  \<open>Array.prototype.findIndex\<close>: the index of the first element satisfying the
  predicate, \<open>None\<close> for the \<open>-1\<close> of JavaScript.
\<close>

fun findIndex :: "('a \<Rightarrow> bool) \<Rightarrow> 'a list \<Rightarrow> nat option" where
  "findIndex p [] = None"
| "findIndex p (x # xs) =
     (if p x then Some 0 else map_option Suc (findIndex p xs))"

text \<open>\<open>String.prototype.slice\<close> for indices within the non-negative range.\<close>

definition slice :: "string \<Rightarrow> nat \<Rightarrow> nat \<Rightarrow> string" where
  "slice text a b = take (b - a) (drop a text)"

record Location =
  line :: nat
  column :: int
  lineText :: string
  file' :: string

record PartialMessage =
  text' :: string
  location :: Location

text \<open>
  \<open>createMessage\<close>: the position is a JavaScript number (the warning callback's default
  is \<open>-1\<close>), here an \<^typ>\<open>int\<close>; \<open>None\<close> is the \<open>undefined\<close> of the bare \<open>return\<close>.
\<close>

definition createMessage :: "string \<Rightarrow> int \<Rightarrow> string \<Rightarrow> string \<Rightarrow> PartialMessage option" where
  "createMessage message pos code fileName =
     (let lines = getLines code in
      case findIndex (\<lambda>l. int (start l) \<ge> pos \<and> int (end' l) < pos) lines of
        Some lineIx \<Rightarrow>
          (let l = lines ! lineIx in
           Some \<lparr>text' = message,
                 location = \<lparr>line = lineIx, column = pos - int (start l),
                             lineText = slice code (start l) (end' l), file' = fileName\<rparr>\<rparr>)
      | None \<Rightarrow> None)"

text \<open>
  The shape that \<open>getLines\<close> builds: spans laid end to end from offset \<open>a\<close> to offset
  \<open>b\<close>, none of them empty.
\<close>

fun chain :: "nat \<Rightarrow> Line list \<Rightarrow> nat \<Rightarrow> bool" where
  "chain a [] b = (a = b)"
| "chain a (l # ls) b = (start l = a \<and> start l < end' l \<and> chain (end' l) ls b)"

section \<open>Content fingerprint (src/utils/hash.js)\<close>

text \<open>
  \<open>createHash('md5')\<close> belongs to the Node runtime; the digest is a parameter of the
  model, a function from the input string to the digest bytes. The \<open>'base64'\<close>
  encoding of the digest (RFC 4648, with padding) is written out on the byte values.
\<close>

type_synonym byte = "8 word"

definition base64_alphabet :: string where
  "base64_alphabet =
     ''ABCDEFGHIJKLMNOPQRSTUVWXYZabcdefghijklmnopqrstuvwxyz0123456789+/''"

definition sextet :: "nat \<Rightarrow> char" where
  "sextet n = base64_alphabet ! n"

fun base64 :: "nat list \<Rightarrow> string" where
  "base64 (a # b # c # rest) =
     [sextet (a div 4), sextet ((a mod 4) * 16 + b div 16),
      sextet ((b mod 16) * 4 + c div 64), sextet (c mod 64)] @ base64 rest"
| "base64 [a, b] =
     [sextet (a div 4), sextet ((a mod 4) * 16 + b div 16),
      sextet ((b mod 16) * 4), CHR ''='']"
| "base64 [a] = [sextet (a div 4), sextet ((a mod 4) * 16), CHR ''='', CHR ''='']"
| "base64 [] = []"

definition digest_base64 :: "byte list \<Rightarrow> string" where
  "digest_base64 bytes = base64 (map unat bytes)"

definition hash_length :: nat where
  "hash_length = 10"

text \<open>The \<open>replacements\<close> table; \<open>replaceRE\<close> is the character class of its keys.\<close>

definition replacements :: "char \<rightharpoonup> string" where
  "replacements = [CHR ''+'' \<mapsto> ''-'', CHR ''/'' \<mapsto> ''_'', CHR ''='' \<mapsto> []]"

definition toSafe :: "string \<Rightarrow> string" where
  "toSafe b64 = concat (map (\<lambda>x. case replacements x of Some r \<Rightarrow> r | None \<Rightarrow> [x]) b64)"

text \<open>
  \<open>safeBase64Hash\<close> with the module-level table \<open>hashes\<close> passed in and returned.
  \<open>if (hashes[input])\<close> is a truthiness test: a stored empty string does not count.
\<close>

definition safeBase64Hash ::
  "(string \<Rightarrow> byte list) \<Rightarrow> string \<Rightarrow> (string \<rightharpoonup> string) \<Rightarrow> string \<times> (string \<rightharpoonup> string)" where
  "safeBase64Hash md5 input hashes =
     (case hashes input of
        Some h \<Rightarrow>
          if h \<noteq> [] then (h, hashes)
          else (let hash = take hash_length (toSafe (digest_base64 (md5 input)))
                in (hash, hashes(input \<mapsto> hash)))
      | None \<Rightarrow>
          (let hash = take hash_length (toSafe (digest_base64 (md5 input)))
           in (hash, hashes(input \<mapsto> hash))))"



section \<open>The runtime and the external libraries\<close>

text \<open>
  Everything the plugin calls but does not define is a field of one record: Node's
  \<open>path\<close>, \<open>crypto\<close> and \<open>URLSearchParams\<close>, the conversions of the language, the
  template compiler, the preprocessor and the scoping transform. The type \<open>'x\<close> stands
  for the values these libraries own and the plugin only passes around (the numbers of a
  \<open>Stats\<close> object, source maps, the rest of the AST, passthrough configuration).
\<close>

datatype error =
    IOError string
  | Error string
  | CompileError string

datatype warn_callback = Collector | Custom

text \<open>
  A key of an options object is absent, present with the value \<open>undefined\<close>, or present
  with a value. Reading the key gives \<open>undefined\<close> in the first two cases; an object spread
  copies the key in the last two.
\<close>

datatype 'a property = Absent | Undefined | Value 'a

definition value_of :: "'a property \<Rightarrow> 'a option" where
  "value_of p = (case p of Value v \<Rightarrow> Some v | _ \<Rightarrow> None)"

text \<open>
  \<open>EndorphinCompileOptions\<close>: every field optional, as in the type declaration. The field
  \<open>warn\<close> records which callback is installed: the collector of \<open>compileTemplate\<close> or
  one of the user's own.
\<close>

record 'x EndorphinCompileOptions =
  module' :: "string property"
  cssScope :: "string property"
  component :: "string property"
  warn :: "warn_callback property"
  classScope :: "'x property"
  other :: "'x property"

record ENDSourceNode =
  mime :: string
  node_content :: "string option"
  node_url :: "string option"

record 'x ParsedTemplate =
  stylesheets :: "ENDSourceNode list"
  ast_scripts :: "ENDSourceNode list"
  ast_rest :: 'x

type_synonym warn_call = "string \<times> int option"

record 'x runtime =
  numberToString :: "'x \<Rightarrow> string"
  md5 :: "string \<Rightarrow> byte list"
  path_basename :: "string \<Rightarrow> string \<Rightarrow> string"
  path_extname :: "string \<Rightarrow> string"
  path_dirname :: "string \<Rightarrow> string"
  path_normalize :: "string \<Rightarrow> string"
  URLSearchParams :: "string \<Rightarrow> (string \<times> string) list"
  Number_index :: "string \<Rightarrow> nat option"
  parse :: "string \<Rightarrow> string \<Rightarrow> 'x EndorphinCompileOptions \<Rightarrow>
            warn_call list \<times> (error + 'x ParsedTemplate)"
  generate :: "'x ParsedTemplate \<Rightarrow> 'x EndorphinCompileOptions \<Rightarrow>
               warn_call list \<times> (error + string \<times> 'x option)"
  sass_compileString :: "string \<Rightarrow> string \<Rightarrow> bool \<Rightarrow>
                         error + string \<times> 'x option \<times> string list"
  scopeCSS :: "string \<Rightarrow> string \<Rightarrow> string \<Rightarrow> 'x option \<Rightarrow> 'x option \<Rightarrow>
               error + (string + string \<times> 'x option)"
  json_base64 :: "'x \<Rightarrow> string"

text \<open>
  \<^item> \<open>Number_index v\<close> is \<open>Number(v)\<close> read as an array index: \<open>Some n\<close> when the number
    is the non-negative integer \<open>n\<close>, \<open>None\<close> for every other number (negative,
    fractional, \<open>NaN\<close>), at which an array holds nothing.
  \<^item> \<open>parse\<close> and \<open>generate\<close> return the calls they made to \<open>warn\<close> together with their
    result or the error they threw.
  \<^item> \<open>sass_compileString source file sourceMap\<close> returns \<open>css\<close>, \<open>sourceMap\<close> and the
    \<open>pathname\<close> of each loaded URL.
  \<^item> \<open>scopeCSS code scope filename map classScope\<close> returns a string (\<open>Inl\<close>) or an
    object with \<open>code\<close> and \<open>map\<close> (\<open>Inr\<close>).
  \<^item> \<open>json_base64 sm\<close> is \<open>Buffer.from(JSON.stringify(sm)).toString('base64')\<close>.
\<close>

text \<open>The host: the file system, the process and the initial options of esbuild.\<close>

record 'x Stats =
  ino :: 'x
  mtimeMs :: 'x

record 'x host =
  stat :: "string \<rightharpoonup> 'x Stats"
  readFile :: "string \<rightharpoonup> string"
  cwd :: string
  sourcemap :: bool

section \<open>Data model (src/ambient.d.ts)\<close>

type_synonym CacheKey = string

record ComponentResource =
  url :: "string option"
  content :: "string option"
  type' :: string

record 'x CacheEntry =
  cacheKey :: CacheKey
  source :: string
  code :: string
  deps :: "(string \<times> CacheKey) list option"
  warnings :: "PartialMessage list option"
  map' :: "'x option"

record 'x TemplateCacheEntry = "'x CacheEntry" +
  scripts :: "ComponentResource list"
  styles :: "ComponentResource list"
  styleCache' :: "string \<rightharpoonup> 'x CacheEntry"

record 'x EndorphinPluginOptions =
  template :: "'x EndorphinCompileOptions option"
  componentName :: "(string \<Rightarrow> string) property"

datatype Loader = JS | TS | CSS

record OnLoadResult =
  contents :: string
  loader :: Loader
  result_warnings :: "PartialMessage list option"
  watchFiles :: "string list option"

record OnLoadArgs =
  path :: string
  suffix :: string

text \<open>
  What the plugin does to the outside, in order: one entry for each \<open>fs.stat\<close>,
  \<open>fs.readFile\<close>, call of the parser, the generator, the preprocessor and the scoping
  transform, and each \<open>console.warn\<close>.
\<close>

datatype event =
    StatCall string
  | ReadCall string
  | ParseCall string
  | GenerateCall string
  | SassCall string
  | ScopeCall string
  | ConsoleWarn string

text \<open>
  The closure variables of \<open>createPlugin\<close> (\<open>templateCache\<close>, \<open>styleCache\<close>,
  \<open>fileKeyCache\<close>), the table \<open>hashes\<close> of the hash module, and the trace of events.
\<close>

record 'x plugin_state =
  templateCache :: "string \<rightharpoonup> 'x TemplateCacheEntry"
  styleCache :: "string \<rightharpoonup> 'x CacheEntry"
  fileKeyCache :: "string \<rightharpoonup> CacheKey"
  hashes :: "string \<rightharpoonup> string"
  trace :: "event list"

definition emit :: "event \<Rightarrow> 'x plugin_state \<Rightarrow> 'x plugin_state" where
  "emit e s = s\<lparr>trace := trace s @ [e]\<rparr>"

text \<open>A string in a condition: \<open>undefined\<close> and the empty string are false.\<close>

fun truthy :: "string option \<Rightarrow> bool" where
  "truthy None = False"
| "truthy (Some v) = (v \<noteq> [])"

text \<open>\<open>Map.prototype.set\<close> on an insertion-ordered map: a present key keeps its place.\<close>

fun map_set :: "'k \<Rightarrow> 'v \<Rightarrow> ('k \<times> 'v) list \<Rightarrow> ('k \<times> 'v) list" where
  "map_set k v [] = [(k, v)]"
| "map_set k v (p # ps) = (if fst p = k then (k, v) # ps else p # map_set k v ps)"

text \<open>Reading an array at a number: \<open>undefined\<close> outside the array.\<close>

definition at_index :: "'a list \<Rightarrow> nat option \<Rightarrow> 'a option" where
  "at_index xs i = (case i of None \<Rightarrow> None | Some n \<Rightarrow> if n < length xs then Some (xs ! n) else None)"

section \<open>Options, paths and URLs (src/endorphin.js)\<close>

definition defaultComponentName :: "'x runtime \<Rightarrow> string \<Rightarrow> string" where
  "defaultComponentName rt ident =
     (let fileName = path_basename rt ident (path_extname rt ident)
      in if fileName = ''index'' then path_dirname rt ident else fileName)"

text \<open>
  The merge at the head of \<open>createPlugin\<close>, \<open>{ ...defaultOptions, ...options }\<close>: a key
  present in the user's options wins over the default, also when its value is
  \<open>undefined\<close>. The defaults have no \<open>template\<close>, so that field is the user's, and reading
  it gives \<open>undefined\<close> (\<open>None\<close>) whether the key is absent or undefined.
  (The \<open>css\<close> options are merged there too and never read afterwards. The \<open>helpers\<close>
  option only adds to \<open>template\<close> during \<open>setup\<close>; \<open>template\<close> here is the result.)
\<close>

definition createPlugin_options :: "'x runtime \<Rightarrow> 'x EndorphinPluginOptions \<Rightarrow> 'x EndorphinPluginOptions" where
  "createPlugin_options rt options =
     options\<lparr>componentName :=
       (case componentName options of
          Absent \<Rightarrow> Value (defaultComponentName rt)
        | Undefined \<Rightarrow> Undefined
        | Value f \<Rightarrow> Value f)\<rparr>"

definition startsWith :: "string \<Rightarrow> string \<Rightarrow> bool" where
  "startsWith str p = (take (length p) str = p)"

definition stripRoot :: "string \<Rightarrow> string \<Rightarrow> string" where
  "stripRoot normalizedFilename normalizedRoot =
     (if startsWith normalizedFilename (normalizedRoot @ ''/'')
      then drop (length normalizedRoot) normalizedFilename
      else normalizedFilename)"

definition normalize :: "'x runtime \<Rightarrow> string \<Rightarrow> string \<Rightarrow> string" where
  "normalize rt filename normalizedRoot = stripRoot (path_normalize rt filename) normalizedRoot"

definition createScopeSuffix ::
  "'x runtime \<Rightarrow> string \<Rightarrow> (string \<rightharpoonup> string) \<Rightarrow> string \<times> (string \<rightharpoonup> string)" where
  "createScopeSuffix rt filePath hs =
     (case safeBase64Hash (md5 rt) filePath hs of (h, hs') \<Rightarrow> (CHR ''e'' # h, hs'))"

definition sourceMapToDataURL :: "'x runtime \<Rightarrow> 'x \<Rightarrow> string" where
  "sourceMapToDataURL rt sm = ''data:application/json;charset=utf-8;base64,'' @ json_base64 rt sm"

definition getComponentResource :: "ENDSourceNode \<Rightarrow> ComponentResource" where
  "getComponentResource node =
     \<lparr>url = node_url node, content = node_content node, type' = mime node\<rparr>"

definition getAbsoluteUrl :: "OnLoadArgs \<Rightarrow> string" where
  "getAbsoluteUrl args = path args @ suffix args"

text \<open>
  \<open>url.split('?', 2)\<close>: the text before the first \<open>?\<close>, and the text between the first
  and the second \<open>?\<close> when there is a first.
\<close>

definition split_question :: "string \<Rightarrow> string \<times> string option" where
  "split_question u =
     (takeWhile (\<lambda>c. c \<noteq> CHR ''?'') u,
      if CHR ''?'' \<in> set u
      then Some (takeWhile (\<lambda>c. c \<noteq> CHR ''?'') (tl (dropWhile (\<lambda>c. c \<noteq> CHR ''?'') u)))
      else None)"

definition splitUrl :: "'x runtime \<Rightarrow> string \<Rightarrow> string \<times> (string \<times> string) list" where
  "splitUrl rt u =
     (case split_question u of
        (f, sfx) \<Rightarrow> (f, URLSearchParams rt (if truthy sfx then CHR ''?'' # (case sfx of Some v \<Rightarrow> v | None \<Rightarrow> []) else [])))"

text \<open>\<open>query.get(name)\<close> is the first value of that name, \<open>query.has(name)\<close> tells if there is one.\<close>

definition query_get :: "(string \<times> string) list \<Rightarrow> string \<Rightarrow> string option" where
  "query_get query name = map_of query name"

definition query_has :: "(string \<times> string) list \<Rightarrow> string \<Rightarrow> bool" where
  "query_has query name = (map_of query name \<noteq> None)"

text \<open>\<open>query.has('i') ? Number(query.get('i')) : -1\<close>, read as an array index.\<close>

definition query_index :: "'x runtime \<Rightarrow> (string \<times> string) list \<Rightarrow> nat option" where
  "query_index rt query =
     (if query_has query ''i''
      then (case query_get query ''i'' of Some v \<Rightarrow> Number_index rt v | None \<Rightarrow> None)
      else None)"

definition toCSSOnLoad :: "('x, 'z) CacheEntry_scheme \<Rightarrow> OnLoadResult" where
  "toCSSOnLoad cacheEntry =
     \<lparr>contents = code cacheEntry, loader = CSS, result_warnings = None,
      watchFiles = (case deps cacheEntry of None \<Rightarrow> None | Some ds \<Rightarrow> Some (map fst ds))\<rparr>"

section \<open>File identity and cache validation\<close>

text \<open>
  \<open>getCacheKey\<close>: the memo is read; on a miss the file is stat'ed (an event) and the key
  composed. \<open>fs.stat\<close> rejects for a path it cannot read.
\<close>

definition getCacheKey ::
  "'x runtime \<Rightarrow> 'x host \<Rightarrow> string \<Rightarrow> 'x plugin_state \<Rightarrow> (error + CacheKey) \<times> 'x plugin_state" where
  "getCacheKey rt h filePath s =
     (case fileKeyCache s filePath of
        Some v \<Rightarrow> (Inr v, s)
      | None \<Rightarrow>
          (case stat h filePath of
             None \<Rightarrow> (Inl (IOError filePath), emit (StatCall filePath) s)
           | Some stats \<Rightarrow>
               (Inr (numberToString rt (ino stats) @ '':'' @ numberToString rt (mtimeMs stats)),
                emit (StatCall filePath) s)))"

text \<open>The \<open>for (const [k, v] of entry.deps)\<close> loop of \<open>isValidEntry\<close>.\<close>

fun isValidEntry_deps ::
  "'x runtime \<Rightarrow> 'x host \<Rightarrow> (string \<times> CacheKey) list \<Rightarrow> 'x plugin_state \<Rightarrow> (error + bool) \<times> 'x plugin_state" where
  "isValidEntry_deps rt h [] s = (Inr True, s)"
| "isValidEntry_deps rt h ((k, v) # rest) s =
     (case getCacheKey rt h k s of
        (Inl e, s') \<Rightarrow> (Inl e, s')
      | (Inr key, s') \<Rightarrow> if v \<noteq> key then (Inr False, s') else isValidEntry_deps rt h rest s')"

definition isValidEntry ::
  "'x runtime \<Rightarrow> 'x host \<Rightarrow> ('x, 'z) CacheEntry_scheme \<Rightarrow> CacheKey \<Rightarrow> 'x plugin_state \<Rightarrow>
   (error + bool) \<times> 'x plugin_state" where
  "isValidEntry rt h entry key s =
     (if cacheKey entry \<noteq> key then (Inr False, s)
      else (case deps entry of
              None \<Rightarrow> (Inr True, s)
            | Some ds \<Rightarrow> if ds \<noteq> [] then isValidEntry_deps rt h ds s else (Inr True, s)))"

text \<open>The condition \<open>!entry || !await isValidEntry(entry, cacheKey)\<close>, negated.\<close>

definition usable ::
  "'x runtime \<Rightarrow> 'x host \<Rightarrow> ('x, 'z) CacheEntry_scheme option \<Rightarrow> CacheKey \<Rightarrow> 'x plugin_state \<Rightarrow>
   (error + bool) \<times> 'x plugin_state" where
  "usable rt h entry key s =
     (case entry of None \<Rightarrow> (Inr False, s) | Some e \<Rightarrow> isValidEntry rt h e key s)"

definition onStart :: "'x plugin_state \<Rightarrow> 'x plugin_state" where
  "onStart s = s\<lparr>fileKeyCache := Map.empty\<rparr>"

section \<open>Stylesheet pipeline\<close>

datatype style_type = Scss | Css

text \<open>
  \<open>processStylesheet\<close>, its options object spread into arguments (\<open>file\<close>, \<open>scope\<close>,
  \<open>type\<close>, \<open>sourceMap\<close>, \<open>classScope\<close>). The result is the pair of \<open>deps\<close> and \<open>code\<close>.
\<close>

definition processStylesheet ::
  "'x runtime \<Rightarrow> string \<Rightarrow> string \<Rightarrow> string \<Rightarrow> style_type \<Rightarrow> bool \<Rightarrow> 'x option \<Rightarrow>
   'x plugin_state \<Rightarrow> (error + string list \<times> string) \<times> 'x plugin_state" where
  "processStylesheet rt src fileName scope ty sourceMap clsScope s =
     (case (if ty = Scss then sass_compileString rt src fileName sourceMap
            else Inr (src, None, [])) of
        Inl e \<Rightarrow> (Inl e, emit (SassCall fileName) s)
      | Inr (code1, smap1, ds) \<Rightarrow>
          (let s1 = (if ty = Scss then emit (SassCall fileName) s else s);
               s2 = emit (ScopeCall fileName) s1
           in case scopeCSS rt code1 scope fileName smap1 clsScope of
                Inl e \<Rightarrow> (Inl e, s2)
              | Inr transformed \<Rightarrow>
                  (case (case transformed of Inl str \<Rightarrow> (str, smap1) | Inr cm \<Rightarrow> cm) of
                     (code2, smap2) \<Rightarrow>
                       (Inr (ds, (case smap2 of
                                    None \<Rightarrow> code2
                                  | Some m \<Rightarrow> code2 @ [LF] @ ''/*# sourceMappingURL='' @
                                              sourceMapToDataURL rt m @ '' */'')),
                        s2))))"

text \<open>The loop \<open>for (const d of processed.deps) deps.set(d, await getCacheKey(d))\<close>.\<close>

fun record_deps ::
  "'x runtime \<Rightarrow> 'x host \<Rightarrow> string list \<Rightarrow> (string \<times> CacheKey) list \<Rightarrow> 'x plugin_state \<Rightarrow>
   (error + (string \<times> CacheKey) list) \<times> 'x plugin_state" where
  "record_deps rt h [] acc s = (Inr acc, s)"
| "record_deps rt h (d # ds) acc s =
     (case getCacheKey rt h d s of
        (Inl e, s') \<Rightarrow> (Inl e, s')
      | (Inr k, s') \<Rightarrow> record_deps rt h ds (map_set d k acc) s')"

text \<open>
  \<open>loadStylesheet\<close>. The cache is a \<open>Map\<close> the caller passes by reference; the model
  takes it and returns it updated, and the caller stores it back where it lives.
  The source is \<open>None\<close> for \<open>null\<close>. The declared result is \<open>CacheEntry | undefined\<close>.
  The body of its \<open>if\<close> (read the file when no source was given, process, record the
  key of each dependency, store the entry) is \<open>loadStylesheet_miss\<close>.
\<close>

definition read_source ::
  "'x host \<Rightarrow> string \<Rightarrow> string option \<Rightarrow> 'x plugin_state \<Rightarrow> (error + string) \<times> 'x plugin_state" where
  "read_source h fileName src s =
     (case src of
        Some t \<Rightarrow> (Inr t, s)
      | None \<Rightarrow>
          (case readFile h fileName of
             None \<Rightarrow> (Inl (IOError fileName), emit (ReadCall fileName) s)
           | Some t \<Rightarrow> (Inr t, emit (ReadCall fileName) s)))"

definition loadStylesheet_miss ::
  "'x runtime \<Rightarrow> 'x EndorphinPluginOptions \<Rightarrow> 'x host \<Rightarrow> string \<Rightarrow> string \<Rightarrow> (string \<times> string) list \<Rightarrow>
   string option \<Rightarrow> style_type \<Rightarrow> (string \<rightharpoonup> 'x CacheEntry) \<Rightarrow> CacheKey \<Rightarrow> 'x plugin_state \<Rightarrow>
   (error + 'x CacheEntry) \<times> (string \<rightharpoonup> 'x CacheEntry) \<times> 'x plugin_state" where
  "loadStylesheet_miss rt options h u fileName query src ty cache key s =
     (case read_source h fileName src s of
        (Inl e, s3) \<Rightarrow> (Inl e, cache, s3)
      | (Inr src', s3) \<Rightarrow>
          (case processStylesheet rt src' fileName
                  (case query_get query ''scope'' of Some v \<Rightarrow> v | None \<Rightarrow> [])
                  ty (sourcemap h)
                  (case template options of None \<Rightarrow> None | Some t \<Rightarrow> value_of (classScope t))
                  s3 of
             (Inl e, s4) \<Rightarrow> (Inl e, cache, s4)
           | (Inr (pdeps, pcode), s4) \<Rightarrow>
               (case record_deps rt h pdeps [] s4 of
                  (Inl e, s5) \<Rightarrow> (Inl e, cache, s5)
                | (Inr ds, s5) \<Rightarrow>
                    (let entry = \<lparr>cacheKey = key, source = src', code = pcode,
                                  deps = Some ds, warnings = None, map' = None\<rparr>
                     in (Inr entry, cache(u \<mapsto> entry), s5)))))"

definition loadStylesheet ::
  "'x runtime \<Rightarrow> 'x EndorphinPluginOptions \<Rightarrow> 'x host \<Rightarrow> string \<Rightarrow> string option \<Rightarrow> style_type \<Rightarrow>
   (string \<rightharpoonup> 'x CacheEntry) \<Rightarrow> 'x plugin_state \<Rightarrow>
   (error + 'x CacheEntry option) \<times> (string \<rightharpoonup> 'x CacheEntry) \<times> 'x plugin_state" where
  "loadStylesheet rt options h u src ty cache s =
     (let cacheEntry = cache u in
      case splitUrl rt u of
        (fileName, query) \<Rightarrow>
          (case getCacheKey rt h fileName s of
             (Inl e, s1) \<Rightarrow> (Inl e, cache, s1)
           | (Inr key, s1) \<Rightarrow>
               (case usable rt h cacheEntry key s1 of
                  (Inl e, s2) \<Rightarrow> (Inl e, cache, s2)
                | (Inr ok, s2) \<Rightarrow>
                    if ok then (Inr cacheEntry, cache, s2)
                    else (case loadStylesheet_miss rt options h u fileName query src ty cache key s2 of
                            (Inl e, cache', s5) \<Rightarrow> (Inl e, cache', s5)
                          | (Inr entry, cache', s5) \<Rightarrow> (Inr (Some entry), cache', s5)))))"

section \<open>Template compiler\<close>

definition dquote :: char where
  "dquote = CHR 0x22"

text \<open>A non-negative integer inside a template literal.\<close>

fun decimal :: "nat \<Rightarrow> string" where
  "decimal n =
     (if n < 10 then [''0123456789'' ! n]
      else decimal (n div 10) @ [''0123456789'' ! (n mod 10)])"

declare decimal.simps [simp del]

text \<open>One key of an object spread: the later object wins where it has the key.\<close>

definition spread_key :: "'a property \<Rightarrow> 'a property \<Rightarrow> 'a property" where
  "spread_key later earlier = (case later of Absent \<Rightarrow> earlier | Undefined \<Rightarrow> Undefined | Value v \<Rightarrow> Value v)"

text \<open>
  The object spread \<open>{ ...base, ...options.template }\<close>; spreading \<open>undefined\<close> adds
  nothing.
\<close>

definition spread ::
  "'x EndorphinCompileOptions \<Rightarrow> 'x EndorphinCompileOptions option \<Rightarrow> 'x EndorphinCompileOptions" where
  "spread base over =
     (case over of
        None \<Rightarrow> base
      | Some t \<Rightarrow>
          \<lparr>module' = spread_key (module' t) (module' base),
           cssScope = spread_key (cssScope t) (cssScope base),
           component = spread_key (component t) (component base),
           warn = spread_key (warn t) (warn base),
           classScope = spread_key (classScope t) (classScope base),
           other = spread_key (other t) (other base)\<rparr>)"

text \<open>\<open>undefined\<close> inside a template literal prints as the word.\<close>

definition interpolate :: "string option \<Rightarrow> string" where
  "interpolate v = (case v of None \<Rightarrow> ''undefined'' | Some t \<Rightarrow> t)"

definition script_header :: "string \<Rightarrow> ComponentResource list \<Rightarrow> string" where
  "script_header filePath rs =
     concat (map (\<lambda>(i, res).
               if truthy (content res)
               then ''export * from '' @ [dquote] @ filePath @ ''?type=componentScript&i='' @
                    decimal i @ [dquote] @ '';'' @ [LF]
               else [])
             (enumerate 0 rs))"

definition style_header :: "string \<Rightarrow> ComponentResource list \<Rightarrow> string" where
  "style_header scope rs =
     concat (map (\<lambda>(i, res).
               ''import '' @ [dquote] @ interpolate (url res) @
               ''?type=componentStylesheet&scope='' @ scope @
               (if truthy (content res) then ''&i='' @ decimal i else []) @
               [dquote] @ '';'' @ [LF])
             (enumerate 0 rs))"

text \<open>The assignment \<open>parsed.ast.scripts[i].content = undefined\<close> for each inline script.\<close>

definition clear_inline_scripts :: "'x ParsedTemplate \<Rightarrow> 'x ParsedTemplate" where
  "clear_inline_scripts parsed =
     parsed\<lparr>ast_scripts :=
       map (\<lambda>node. if truthy (node_content node) then node\<lparr>node_content := None\<rparr> else node)
           (ast_scripts parsed)\<rparr>"

text \<open>
  The callback \<open>warn\<close> of \<open>compileTemplate\<close>, run over the calls the library made, when
  it is the callback in force; the position defaults to \<open>-1\<close>.
\<close>

definition collect_warnings ::
  "'x EndorphinCompileOptions \<Rightarrow> string \<Rightarrow> string \<Rightarrow> warn_call list \<Rightarrow> PartialMessage list" where
  "collect_warnings compileOpt src filePath calls =
     (if warn compileOpt = Value Collector
      then List.map_filter
             (\<lambda>(message, pos). createMessage message (case pos of None \<Rightarrow> - 1 | Some p \<Rightarrow> p) src filePath)
             calls
      else [])"

definition compileTemplate ::
  "'x runtime \<Rightarrow> 'x host \<Rightarrow> string \<Rightarrow> CacheKey \<Rightarrow> 'x EndorphinPluginOptions \<Rightarrow> 'x plugin_state \<Rightarrow>
   (error + 'x TemplateCacheEntry) \<times> 'x plugin_state" where
  "compileTemplate rt h filePath key options s =
     (let root = cwd h in
      case readFile h filePath of
        None \<Rightarrow> (Inl (IOError filePath), emit (ReadCall filePath) s)
      | Some src \<Rightarrow>
          (let s1 = emit (ReadCall filePath) s;
               normalizedFilename = normalize rt filePath root
           in case createScopeSuffix rt normalizedFilename (hashes s1) of
                (scope, hs) \<Rightarrow>
                  (let s2 = s1\<lparr>hashes := hs\<rparr>;
                       compileOpt = spread
                         \<lparr>module' = Value ''endorphin'',
                          cssScope = Value scope,
                          component = Value (case value_of (componentName options) of
                                               Some f \<Rightarrow> f normalizedFilename
                                             | None \<Rightarrow> []),
                          warn = Value Collector,
                          classScope = Absent,
                          other = Absent\<rparr>
                         (template options);
                       s3 = emit (ParseCall filePath) s2
                   in case parse rt src filePath compileOpt of
                        (w1, Inl e) \<Rightarrow> (Inl e, s3)
                      | (w1, Inr parsed) \<Rightarrow>
                          (let styles1 = map getComponentResource (stylesheets parsed);
                               scripts1 = map getComponentResource (ast_scripts parsed);
                               header = script_header filePath scripts1 @
                                        style_header (interpolate (value_of (cssScope compileOpt))) styles1;
                               s4 = emit (GenerateCall filePath) s3
                           in case generate rt (clear_inline_scripts parsed) compileOpt of
                                (w2, Inl e) \<Rightarrow> (Inl e, s4)
                              | (w2, Inr (gcode, gmap)) \<Rightarrow>
                                  (Inr \<lparr>cacheKey = key,
                                        source = src,
                                        code = header @ gcode,
                                        deps = None,
                                        warnings = Some (collect_warnings compileOpt src filePath (w1 @ w2)),
                                        map' = gmap,
                                        scripts = scripts1,
                                        styles = styles1,
                                        styleCache' = Map.empty\<rparr>,
                                   s4)))))"

section \<open>Load handlers\<close>

text \<open>
  The handler for \<open>/\.html$/\<close>. \<open>Inr None\<close> is a handler that returns nothing. The
  style cache of a template is a \<open>Map\<close> inside the entry that \<open>templateCache\<close> holds:
  what \<open>loadStylesheet\<close> did to it is stored back into that entry.
\<close>

definition store_styleCache ::
  "string \<Rightarrow> 'x TemplateCacheEntry \<Rightarrow> (string \<rightharpoonup> 'x CacheEntry) \<Rightarrow> 'x plugin_state \<Rightarrow> 'x plugin_state" where
  "store_styleCache p ct cache s =
     s\<lparr>templateCache := (templateCache s)(p \<mapsto> ct\<lparr>styleCache' := cache\<rparr>)\<rparr>"

definition respond :: "'x TemplateCacheEntry \<Rightarrow> OnLoadResult" where
  "respond ct =
     \<lparr>contents = code ct, loader = JS, result_warnings = warnings ct, watchFiles = None\<rparr>"

definition onLoad_html ::
  "'x runtime \<Rightarrow> 'x EndorphinPluginOptions \<Rightarrow> 'x host \<Rightarrow> OnLoadArgs \<Rightarrow> 'x plugin_state \<Rightarrow>
   (error + OnLoadResult option) \<times> 'x plugin_state" where
  "onLoad_html rt options h args s =
     (let compiledTemplate = templateCache s (path args) in
      if suffix args \<noteq> [] then
        (case compiledTemplate of
           None \<Rightarrow> (Inl (Error (''Unable to find parsed tamplate for '' @ path args)), s)
         | Some ct \<Rightarrow>
             (let query = URLSearchParams rt (suffix args);
                  ty = query_get query ''type'';
                  i = query_index rt query
              in if ty = Some ''componentStylesheet'' then
                   (case at_index (styles ct) i of
                      None \<Rightarrow> (Inr None, s)
                    | Some style \<Rightarrow>
                        if truthy (content style) then
                          (case loadStylesheet rt options h (getAbsoluteUrl args) (content style)
                                  (if type' style = ''scss'' then Scss else Css) (styleCache' ct) s of
                             (Inl e, cache', s') \<Rightarrow> (Inl e, store_styleCache (path args) ct cache' s')
                           | (Inr (Some cacheEntry), cache', s') \<Rightarrow>
                               (Inr (Some (toCSSOnLoad cacheEntry)),
                                store_styleCache (path args) ct cache' s')
                           | (Inr None, cache', s') \<Rightarrow>
                               (Inr None,
                                emit (ConsoleWarn ''No inline stylesheet'')
                                  (store_styleCache (path args) ct cache' s')))
                        else (Inr None, s))
                 else if ty = Some ''componentScript'' then
                   (case at_index (scripts ct) i of
                      None \<Rightarrow> (Inr None, emit (ConsoleWarn ''No inline script'') s)
                    | Some script \<Rightarrow>
                        if truthy (content script) then
                          (Inr (Some \<lparr>contents = interpolate (content script),
                                      loader = (if type' script = ''ts'' \<or> type' script = ''typescript''
                                                then TS else JS),
                                      result_warnings = None, watchFiles = None\<rparr>),
                           s)
                        else (Inr None, emit (ConsoleWarn ''No inline script'') s))
                 else (Inr None, s)))
      else
        (case getCacheKey rt h (path args) s of
           (Inl e, s1) \<Rightarrow> (Inl e, s1)
         | (Inr key, s1) \<Rightarrow>
             (case usable rt h compiledTemplate key s1 of
                (Inl e, s2) \<Rightarrow> (Inl e, s2)
              | (Inr ok, s2) \<Rightarrow>
                  if ok then (Inr (map_option respond compiledTemplate), s2)
                  else (case compileTemplate rt h (path args) key options s2 of
                          (Inl e, s3) \<Rightarrow> (Inl e, s3)
                        | (Inr ct, s3) \<Rightarrow>
                            (Inr (Some (respond ct)),
                             s3\<lparr>templateCache := (templateCache s3)(path args \<mapsto> ct)\<rparr>)))))"


fun is_stat_event :: "event \<Rightarrow> bool" where
  "is_stat_event (StatCall _) = True"
| "is_stat_event _ = False"

fun is_warn_event :: "event \<Rightarrow> bool" where
  "is_warn_event (ConsoleWarn _) = True"
| "is_warn_event _ = False"

section \<open>A runtime to compute with\<close>

text \<open>
  The POSIX functions of Node's \<open>path\<close> module, after its documentation:
  \<open>basename(p, ext)\<close> is the last segment of \<open>p\<close>, trailing separators ignored, without
  the ending \<open>ext\<close> unless that is the whole segment; \<open>extname(p)\<close> runs from the last dot
  of the last segment, and is empty when there is no dot, when the dot is its first
  character, or when the segment is \<open>..\<close>; \<open>dirname(p)\<close> is \<open>p\<close> up to the separator
  before the last segment.
\<close>

definition last_segment :: "string \<Rightarrow> string" where
  "last_segment p =
     rev (takeWhile (\<lambda>c. c \<noteq> CHR ''/'') (dropWhile (\<lambda>c. c = CHR ''/'') (rev p)))"

definition endsWith :: "string \<Rightarrow> string \<Rightarrow> bool" where
  "endsWith str sfx = (length sfx \<le> length str \<and> drop (length str - length sfx) str = sfx)"

definition posix_basename :: "string \<Rightarrow> string \<Rightarrow> string" where
  "posix_basename p ext =
     (let b = last_segment p in
      if ext \<noteq> [] \<and> length ext \<le> length p then
        (if ext = p then []
         else if endsWith b ext \<and> b \<noteq> ext then take (length b - length ext) b
         else b)
      else b)"

definition posix_extname :: "string \<Rightarrow> string" where
  "posix_extname p =
     (let b = last_segment p;
          after = rev (takeWhile (\<lambda>c. c \<noteq> CHR ''.'') (rev b))
      in if CHR ''.'' \<notin> set b then []
         else if length b = Suc (length after) then []
         else if b = ''..'' then []
         else CHR ''.'' # after)"

text \<open>The backward scan of \<open>dirname\<close>, from index \<open>i\<close> down to 1.\<close>

fun dirname_end :: "string \<Rightarrow> nat \<Rightarrow> bool \<Rightarrow> nat option" where
  "dirname_end p 0 matchedSlash = None"
| "dirname_end p (Suc i) matchedSlash =
     (if p ! Suc i = CHR ''/''
      then (if \<not> matchedSlash then Some (Suc i) else dirname_end p i matchedSlash)
      else dirname_end p i False)"

definition posix_dirname :: "string \<Rightarrow> string" where
  "posix_dirname p =
     (if p = [] then ''.''
      else (let hasRoot = (hd p = CHR ''/'') in
            case dirname_end p (length p - 1) True of
              None \<Rightarrow> if hasRoot then ''/'' else ''.''
            | Some e \<Rightarrow> if hasRoot \<and> e = 1 then ''//'' else take e p))"

text \<open>
  A runtime on \<^typ>\<open>nat\<close> in which every library is a small total function: paths are
  POSIX and taken as normalized already, the digest is the MD5 of the empty string, a
  query is read from a table of the suffixes used below, the parser finds one inline
  TypeScript script, one stylesheet without content and one inline SCSS stylesheet, the
  preprocessor reports the file itself as loaded, and nothing fails or warns.
\<close>

definition sample_runtime :: "nat runtime" where
  "sample_runtime =
     \<lparr>numberToString = decimal,
      md5 = (\<lambda>_. [0xd4, 0x1d, 0x8c, 0xd9, 0x8f, 0x00, 0xb2, 0x04,
                   0xe9, 0x80, 0x09, 0x98, 0xec, 0xf8, 0x42, 0x7e]),
      path_basename = posix_basename,
      path_extname = posix_extname,
      path_dirname = posix_dirname,
      path_normalize = (\<lambda>p. p),
      URLSearchParams = (\<lambda>sfx.
        if sfx = ''?type=componentScript&i=0''
        then [(''type'', ''componentScript''), (''i'', ''0'')]
        else if sfx = ''?type=componentStylesheet&scope=e1B2M2Y8Asg&i=0''
        then [(''type'', ''componentStylesheet''), (''scope'', ''e1B2M2Y8Asg''), (''i'', ''0'')]
        else if sfx = ''?type=componentStylesheet&scope=e1B2M2Y8Asg&i=1''
        then [(''type'', ''componentStylesheet''), (''scope'', ''e1B2M2Y8Asg''), (''i'', ''1'')]
        else []),
      Number_index = (\<lambda>v. if v = ''0'' then Some 0 else if v = ''1'' then Some 1 else None),
      parse = (\<lambda>src filePath opts.
        ([], Inr \<lparr>stylesheets = [\<lparr>mime = ''text/css'', node_content = None,
                                   node_url = Some ''/app/a.css''\<rparr>,
                                 \<lparr>mime = ''scss'', node_content = Some ''p{}'',
                                   node_url = Some ''/app/a.html''\<rparr>],
                  ast_scripts = [\<lparr>mime = ''ts'', node_content = Some ''let x = 1'',
                                   node_url = None\<rparr>],
                  ast_rest = 0\<rparr>)),
      generate = (\<lambda>parsed opts. ([], Inr (''/* generated */'', None))),
      sass_compileString = (\<lambda>src fileName sm. Inr (src, None, [fileName])),
      scopeCSS = (\<lambda>c scope fileName sm cls. Inr (Inl c)),
      json_base64 = (\<lambda>sm. [])\<rparr>"

definition sample_host :: "nat host" where
  "sample_host =
     \<lparr>stat = [''/app/a.html'' \<mapsto> \<lparr>ino = 7, mtimeMs = 100\<rparr>,
              ''/app/a.scss'' \<mapsto> \<lparr>ino = 8, mtimeMs = 200\<rparr>],
      readFile = [''/app/a.html'' \<mapsto> ''<p/>'', ''/app/a.scss'' \<mapsto> ''p{}''],
      cwd = ''/app'',
      sourcemap = False\<rparr>"

definition sample_options :: "nat EndorphinPluginOptions" where
  "sample_options =
     createPlugin_options sample_runtime \<lparr>template = None, componentName = Absent\<rparr>"




definition initial_state :: "'x plugin_state" where
  "initial_state =
     \<lparr>templateCache = Map.empty, styleCache = Map.empty, fileKeyCache = Map.empty,
      hashes = Map.empty, trace = []\<rparr>"

text \<open>
  The entry that the main load of \<open>/app/a.html\<close> produces under the sample runtime, and
  the state in which it is cached.
\<close>

definition sample_template :: "nat TemplateCacheEntry" where
  "sample_template =
     \<lparr>cacheKey = ''7:100'',
      source = ''<p/>'',
      code = ''export * from '' @ [dquote] @ ''/app/a.html?type=componentScript&i=0'' @ [dquote] @
             '';'' @ [LF] @
             ''import '' @ [dquote] @ ''/app/a.css?type=componentStylesheet&scope=e1B2M2Y8Asg'' @
             [dquote] @ '';'' @ [LF] @
             ''import '' @ [dquote] @
             ''/app/a.html?type=componentStylesheet&scope=e1B2M2Y8Asg&i=1'' @
             [dquote] @ '';'' @ [LF] @ ''/* generated */'',
      deps = None,
      warnings = Some [],
      map' = None,
      scripts = [\<lparr>url = None, content = Some ''let x = 1'', type' = ''ts''\<rparr>],
      styles = [\<lparr>url = Some ''/app/a.css'', content = None, type' = ''text/css''\<rparr>,
                \<lparr>url = Some ''/app/a.html'', content = Some ''p{}'', type' = ''scss''\<rparr>],
      styleCache' = Map.empty\<rparr>"

definition sample_state :: "nat plugin_state" where
  "sample_state =
     \<lparr>templateCache = [''/app/a.html'' \<mapsto> sample_template],
      styleCache = Map.empty,
      fileKeyCache = Map.empty,
      hashes = [''/a.html'' \<mapsto> ''1B2M2Y8Asg''],
      trace = [StatCall ''/app/a.html'', ReadCall ''/app/a.html'',
               ParseCall ''/app/a.html'', GenerateCall ''/app/a.html'']\<rparr>"

text \<open>The dependencies recorded on an entry, none when the field is absent.\<close>

definition recorded_deps :: "('x, 'z) CacheEntry_scheme \<Rightarrow> (string \<times> CacheKey) list" where
  "recorded_deps entry = (case deps entry of None \<Rightarrow> [] | Some ds \<Rightarrow> ds)"

definition sample_entry :: "CacheKey \<Rightarrow> nat CacheEntry" where
  "sample_entry depKey =
     \<lparr>cacheKey = ''7:100'', source = ''p{}'', code = ''p{}'',
      deps = Some [(''/app/a.scss'', depKey)], warnings = None, map' = None\<rparr>"

text \<open>
  A state in which \<open>/app/a.html\<close> was compiled when its key was \<open>7:99\<close>, with one inline
  style cached under that compile.
\<close>

definition stale_state :: "nat plugin_state" where
  "stale_state =
     sample_state\<lparr>templateCache :=
       [''/app/a.html'' \<mapsto>
          sample_template\<lparr>cacheKey := ''7:99'',
                          styleCache' := [''/app/a.html?type=componentStylesheet&i=1'' \<mapsto>
                                            sample_entry ''8:200'']\<rparr>]\<rparr>"

text \<open>
  Between two states nothing happened but calls of \<open>fs.stat\<close>: the caches are the same
  and the trace grew by stat events only.
\<close>

definition stat_only :: "'x plugin_state \<Rightarrow> 'x plugin_state \<Rightarrow> bool" where
  "stat_only s s' = (\<exists>evs. s' = s\<lparr>trace := trace s @ evs\<rparr> \<and> list_all is_stat_event evs)"

section \<open>The line scan partitions the text\<close>

lemma chain_append: "chain a (xs @ ys) c = (\<exists>b. chain a xs b \<and> chain b ys c)"
  by (induction xs arbitrary: a) auto

lemma chain_snoc: "chain a xs s \<Longrightarrow> s < e \<Longrightarrow> chain a (xs @ [\<lparr>start = s, end' = e\<rparr>]) e"
  by (auto simp: chain_append)

lemma getLines_loop_chain:
  "chain 0 result s \<Longrightarrow> s \<le> e \<Longrightarrow> e \<le> length tx \<Longrightarrow>
   chain 0 (getLines_loop tx s e result) (length tx)"
proof (induction tx s e result rule: getLines_loop.induct)
  case (1 tx s e result)
  show ?case
  proof (cases "e < length tx")
    case False
    with 1 show ?thesis
      by (subst getLines_loop.simps) (auto simp: chain_snoc)
  next
    case True
    show ?thesis
    proof (cases "tx ! e = CR \<or> tx ! e = LF")
      case False
      with True 1 show ?thesis
      by (subst getLines_loop.simps) (auto simp: Let_def)
    next
      case nl: True
      define e2 where "e2 = (if tx ! e = CR \<and> e + 1 < length tx \<and> tx ! (e + 1) = LF then e + 1 + 1 else e + 1)"
      have e2: "s < e2" "e2 \<le> length tx" using True 1(4) by (auto simp: e2_def)
      have "chain 0 (getLines_loop tx e2 e2 (result @ [\<lparr>start = s, end' = e2\<rparr>])) (length tx)"
        using 1(1)[OF True refl refl nl e2_def] e2 1(3) by (simp add: chain_snoc)
      moreover have "getLines_loop tx s e result =
          getLines_loop tx e2 e2 (result @ [\<lparr>start = s, end' = e2\<rparr>])"
        using True nl by (subst getLines_loop.simps) (simp add: Let_def e2_def)
      ultimately show ?thesis by simp
    qed
  qed
qed

lemma getLines_chain: "chain 0 (getLines text) (length text)"
  unfolding getLines_def by (rule getLines_loop_chain) auto

lemma chain_le: "chain a ls b \<Longrightarrow> a \<le> b"
proof (induction ls arbitrary: a)
  case Nil then show ?case by simp
next
  case (Cons l ls)
  from Cons.prems have "start l = a" "start l < end' l" "chain (end' l) ls b" by auto
  with Cons.IH[of "end' l"] show ?case by linarith
qed

lemma chain_Nil_iff: "chain a ls b \<Longrightarrow> (ls = []) = (a = b)"
  using chain_le by (cases ls) fastforce+

lemma chain_hd: "chain a ls b \<Longrightarrow> ls \<noteq> [] \<Longrightarrow> start (hd ls) = a"
  by (cases ls) auto

lemma chain_last: "chain a ls b \<Longrightarrow> ls \<noteq> [] \<Longrightarrow> end' (last ls) = b"
  by (induction ls arbitrary: a) (auto split: if_splits)

lemma chain_adjacent: "chain a ls b \<Longrightarrow> Suc i < length ls \<Longrightarrow> end' (ls ! i) = start (ls ! Suc i)"
proof (induction ls arbitrary: a i)
  case Nil then show ?case by simp
next
  case (Cons l ls)
  show ?case
  proof (cases i)
    case 0
    with Cons.prems show ?thesis by (cases ls) auto
  next
    case (Suc j)
    with Cons show ?thesis by auto
  qed
qed

lemma chain_bounds: "chain a ls b \<Longrightarrow> i < length ls \<Longrightarrow> a \<le> start (ls ! i) \<and> start (ls ! i) < end' (ls ! i) \<and> end' (ls ! i) \<le> b"
proof (induction ls arbitrary: a i)
  case Nil then show ?case by simp
next
  case (Cons l ls)
  show ?case
  proof (cases i)
    case 0
    with Cons.prems chain_le[of "end' l" ls b] show ?thesis by auto
  next
    case (Suc j)
    with Cons.prems Cons.IH[of "end' l" j] show ?thesis by auto
  qed
qed

lemma chain_unique: "chain a ls b \<Longrightarrow> a \<le> pos \<Longrightarrow> pos < b \<Longrightarrow>
   \<exists>!i. i < length ls \<and> start (ls ! i) \<le> pos \<and> pos < end' (ls ! i)"
proof (induction ls arbitrary: a)
  case Nil then show ?case by simp
next
  case (Cons l ls)
  show ?case
  proof (cases "pos < end' l")
    case True
    have "\<And>j. j < length ls \<Longrightarrow> \<not> start (ls ! j) \<le> pos"
      using chain_bounds[of "end' l" ls b] Cons.prems True by fastforce
    then have "\<And>i. i < length (l # ls) \<and> start ((l # ls) ! i) \<le> pos \<and> pos < end' ((l # ls) ! i) \<Longrightarrow> i = 0"
      by (case_tac i) auto
    moreover have "0 < length (l # ls) \<and> start ((l # ls) ! 0) \<le> pos \<and> pos < end' ((l # ls) ! 0)"
      using Cons.prems True by auto
    ultimately show ?thesis by blast
  next
    case False
    then have "\<exists>!i. i < length ls \<and> start (ls ! i) \<le> pos \<and> pos < end' (ls ! i)"
      using Cons.IH[of "end' l"] Cons.prems by auto
    then obtain j where j: "j < length ls" "start (ls ! j) \<le> pos" "pos < end' (ls ! j)"
      and u: "\<And>k. k < length ls \<and> start (ls ! k) \<le> pos \<and> pos < end' (ls ! k) \<Longrightarrow> k = j"
      by blast
    have "Suc j < length (l # ls) \<and> start ((l # ls) ! Suc j) \<le> pos \<and> pos < end' ((l # ls) ! Suc j)"
      using j by simp
    moreover have "\<And>i. i < length (l # ls) \<and> start ((l # ls) ! i) \<le> pos \<and> pos < end' ((l # ls) ! i) \<Longrightarrow> i = Suc j"
      using False u by (case_tac i) auto
    ultimately show ?thesis by blast
  qed
qed


text \<open>
  Claim C10. The spans of the line scan partition the text: the list is empty exactly
  for the empty string; otherwise the first span starts at offset 0 and the last one ends
  at the length of the string; the end of each span is the start of the next; and every
  offset below the length lies in exactly one span.
\<close>

theorem getLines_partition:
  "(getLines tx = [] \<longleftrightarrow> tx = []) \<and>
   (getLines tx \<noteq> [] \<longrightarrow> start (hd (getLines tx)) = 0 \<and> end' (last (getLines tx)) = length tx) \<and>
   (\<forall>i. Suc i < length (getLines tx) \<longrightarrow> end' (getLines tx ! i) = start (getLines tx ! Suc i)) \<and>
   (\<forall>pos < length tx. \<exists>!i. i < length (getLines tx) \<and>
        start (getLines tx ! i) \<le> pos \<and> pos < end' (getLines tx ! i))"
proof -
  note c = getLines_chain[of tx]
  have "getLines tx = [] \<longleftrightarrow> tx = []"
    using chain_Nil_iff[OF c] by auto
  moreover have "getLines tx \<noteq> [] \<longrightarrow> start (hd (getLines tx)) = 0 \<and> end' (last (getLines tx)) = length tx"
    using chain_hd[OF c] chain_last[OF c] by simp
  moreover have "\<forall>i. Suc i < length (getLines tx) \<longrightarrow> end' (getLines tx ! i) = start (getLines tx ! Suc i)"
    using chain_adjacent[OF c] by simp
  moreover have "\<forall>pos < length tx. \<exists>!i. i < length (getLines tx) \<and>
        start (getLines tx ! i) \<le> pos \<and> pos < end' (getLines tx ! i)"
    using chain_unique[OF c] by simp
  ultimately show ?thesis by blast
qed

lemma getLines_sample: "getLines [CHR ''a'', CR, LF, CHR ''b''] = [\<lparr>start = 0, end' = 3\<rparr>, \<lparr>start = 3, end' = 4\<rparr>]"
  by (simp add: getLines_def getLines_loop.simps CR_def LF_def)

theorem getLines_partition_witness:
  "getLines [CHR ''a'', CR, LF, CHR ''b''] \<noteq> [] \<and>
   start (hd (getLines [CHR ''a'', CR, LF, CHR ''b''])) = 0 \<and>
   end' (last (getLines [CHR ''a'', CR, LF, CHR ''b''])) = length [CHR ''a'', CR, LF, CHR ''b''] \<and>
   Suc 0 < length (getLines [CHR ''a'', CR, LF, CHR ''b'']) \<and>
   end' (getLines [CHR ''a'', CR, LF, CHR ''b''] ! 0) = start (getLines [CHR ''a'', CR, LF, CHR ''b''] ! Suc 0) \<and>
   (2::nat) < length [CHR ''a'', CR, LF, CHR ''b''] \<and>
   (\<exists>!i. i < length (getLines [CHR ''a'', CR, LF, CHR ''b'']) \<and>
        start (getLines [CHR ''a'', CR, LF, CHR ''b''] ! i) \<le> 2 \<and> 2 < end' (getLines [CHR ''a'', CR, LF, CHR ''b''] ! i))"
proof -
  have ne: "getLines [CHR ''a'', CR, LF, CHR ''b''] \<noteq> []" and len: "Suc 0 < length (getLines [CHR ''a'', CR, LF, CHR ''b''])"
    by (simp_all add: getLines_sample)
  have pos: "(2::nat) < length [CHR ''a'', CR, LF, CHR ''b'']" by simp
  from getLines_partition[of "[CHR ''a'', CR, LF, CHR ''b'']"] ne len pos show ?thesis
    by blast
qed

lemma findIndex_None: "(\<And>x. x \<in> set xs \<Longrightarrow> \<not> p x) \<Longrightarrow> findIndex p xs = None"
  by (induction xs) auto

lemma chain_mem_bounds: "chain a ls b \<Longrightarrow> l \<in> set ls \<Longrightarrow> start l < end' l"
  using chain_bounds by (metis in_set_conv_nth)

lemma createMessage_None: "createMessage message pos c f = None"
proof -
  have "findIndex (\<lambda>l. int (start l) \<ge> pos \<and> int (end' l) < pos) (getLines c) = None"
  proof (rule findIndex_None)
    fix x assume "x \<in> set (getLines c)"
    then have "start x < end' x" using chain_mem_bounds[OF getLines_chain] by blast
    then show "\<not> (int (start x) \<ge> pos \<and> int (end' x) < pos)" by linarith
  qed
  then show ?thesis by (simp add: createMessage_def)
qed

text \<open>
  Claim C4 (the code departs from it). In the source \<open>ab\ncd\<close> the line scan gives the
  spans \<open>[0,3)\<close> and \<open>[3,5)\<close>, so offset 4 lies inside line 1 at column 1; for the
  warning at offset 4 \<open>createMessage\<close> nevertheless returns nothing, and the
  diagnostic is dropped.
\<close>

theorem createMessage_inside_offset:
  "getLines [CHR ''a'', CHR ''b'', LF, CHR ''c'', CHR ''d''] = [\<lparr>start = 0, end' = 3\<rparr>, \<lparr>start = 3, end' = 5\<rparr>] \<and>
   createMessage ''unused'' 4 [CHR ''a'', CHR ''b'', LF, CHR ''c'', CHR ''d''] ''a.html'' = None"
  by (simp add: createMessage_def getLines_def getLines_loop.simps CR_def LF_def)

section \<open>File identity and cache validation, verified\<close>

lemma getCacheKey_fileKeyCache [simp]:
  "fileKeyCache (snd (getCacheKey rt h p s)) = fileKeyCache s"
  by (simp add: getCacheKey_def emit_def split: option.splits)

lemma getCacheKey_caches [simp]:
  "templateCache (snd (getCacheKey rt h p s)) = templateCache s"
  "styleCache (snd (getCacheKey rt h p s)) = styleCache s"
  "hashes (snd (getCacheKey rt h p s)) = hashes s"
  by (simp_all add: getCacheKey_def emit_def split: option.splits)

lemma getCacheKey_cong:
  "fileKeyCache s' = fileKeyCache s \<Longrightarrow> fst (getCacheKey rt h p s') = fst (getCacheKey rt h p s)"
  by (simp add: getCacheKey_def split: option.splits)

lemma getCacheKey_trace:
  "\<exists>evs. trace (snd (getCacheKey rt h p s)) = trace s @ evs \<and> (\<forall>e \<in> set evs. is_stat_event e)"
  by (simp add: getCacheKey_def emit_def split: option.splits)

lemma isValidEntry_deps_fileKeyCache [simp]:
  "fileKeyCache (snd (isValidEntry_deps rt h ds s)) = fileKeyCache s"
proof (induction ds arbitrary: s)
  case Nil then show ?case by simp
next
  case (Cons d ds)
  obtain k v where d: "d = (k, v)" by (cases d)
  obtain r s' where g: "getCacheKey rt h k s = (r, s')" by (cases "getCacheKey rt h k s")
  then have "fileKeyCache s' = fileKeyCache s"
    using getCacheKey_fileKeyCache[of rt h k s] by simp
  with Cons.IH[of s'] g d show ?case
    by (cases r) auto
qed

lemma isValidEntry_deps_True:
  "(fst (isValidEntry_deps rt h ds s) = Inr True) =
   (\<forall>(k, v) \<in> set ds. fst (getCacheKey rt h k s) = Inr v)"
proof (induction ds arbitrary: s)
  case Nil then show ?case by simp
next
  case (Cons d ds)
  obtain k v where d: "d = (k, v)" by (cases d)
  obtain r s' where g: "getCacheKey rt h k s = (r, s')" by (cases "getCacheKey rt h k s")
  then have fk: "fileKeyCache s' = fileKeyCache s"
    using getCacheKey_fileKeyCache[of rt h k s] by simp
  have same: "\<And>p. fst (getCacheKey rt h p s') = fst (getCacheKey rt h p s)"
    by (rule getCacheKey_cong[OF fk])
  show ?case
  proof (cases r)
    case (Inl e)
    with g d show ?thesis by auto
  next
    case (Inr c)
    with g d Cons.IH[of s'] same show ?thesis by auto
  qed
qed

lemma isValidEntry_deps_False:
  "\<forall>(k, v) \<in> set ds. \<exists>c. fst (getCacheKey rt h k s) = Inr c \<Longrightarrow>
   fst (isValidEntry_deps rt h ds s) =
     Inr (\<forall>(k, v) \<in> set ds. fst (getCacheKey rt h k s) = Inr v)"
proof (induction ds arbitrary: s)
  case Nil then show ?case by simp
next
  case (Cons d ds)
  obtain k v where d: "d = (k, v)" by (cases d)
  obtain r s' where g: "getCacheKey rt h k s = (r, s')" by (cases "getCacheKey rt h k s")
  then have fk: "fileKeyCache s' = fileKeyCache s"
    using getCacheKey_fileKeyCache[of rt h k s] by simp
  have same: "\<And>p. fst (getCacheKey rt h p s') = fst (getCacheKey rt h p s)"
    by (rule getCacheKey_cong[OF fk])
  from Cons.prems d g obtain c where r: "r = Inr c" by auto
  have "\<forall>(k, v) \<in> set ds. \<exists>c. fst (getCacheKey rt h k s') = Inr c"
    using Cons.prems same by auto
  from Cons.IH[OF this] r g d same show ?case by auto
qed

lemma isValidEntry_True:
  "(fst (isValidEntry rt h entry key s) = Inr True) =
   (cacheKey entry = key \<and>
    (\<forall>(depPath, depKey) \<in> set (recorded_deps entry). fst (getCacheKey rt h depPath s) = Inr depKey))"
  by (cases "deps entry")
     (auto simp: isValidEntry_def recorded_deps_def isValidEntry_deps_True)

text \<open>
  Claim C1. \<open>isValidEntry(entry, currentKey)\<close> returns true if and only if the key of
  the entry equals \<open>currentKey\<close> and, for every pair recorded in its dependencies, the
  current identity of the path (what \<open>getCacheKey\<close> returns for it) equals the recorded
  key. In particular, when the primary key matches and every recorded dependency still has
  an identity, one of them differing from its recorded key, the result is false.
\<close>

theorem isValidEntry_iff:
  "(fst (isValidEntry rt h entry key s) = Inr True \<longleftrightarrow>
     cacheKey entry = key \<and>
     (\<forall>(depPath, depKey) \<in> set (recorded_deps entry). fst (getCacheKey rt h depPath s) = Inr depKey)) \<and>
   (cacheKey entry = key \<and>
    (\<forall>(depPath, depKey) \<in> set (recorded_deps entry). \<exists>c. fst (getCacheKey rt h depPath s) = Inr c) \<and>
    (\<exists>(depPath, depKey) \<in> set (recorded_deps entry). fst (getCacheKey rt h depPath s) \<noteq> Inr depKey)
    \<longrightarrow> fst (isValidEntry rt h entry key s) = Inr False)"
proof -
  have a: "fst (isValidEntry rt h entry key s) = Inr True \<longleftrightarrow>
     cacheKey entry = key \<and>
     (\<forall>(depPath, depKey) \<in> set (recorded_deps entry). fst (getCacheKey rt h depPath s) = Inr depKey)"
    by (rule isValidEntry_True)
  have b: "fst (isValidEntry rt h entry key s) = Inr False"
    if k: "cacheKey entry = key"
    and ex: "\<forall>(depPath, depKey) \<in> set (recorded_deps entry). \<exists>c. fst (getCacheKey rt h depPath s) = Inr c"
    and ch: "\<exists>(depPath, depKey) \<in> set (recorded_deps entry). fst (getCacheKey rt h depPath s) \<noteq> Inr depKey"
  proof -
    from ch obtain ds where ds: "deps entry = Some ds" "ds \<noteq> []"
      by (cases "deps entry") (fastforce simp: recorded_deps_def)+
    with ex have "fst (isValidEntry_deps rt h ds s) =
        Inr (\<forall>(k, v) \<in> set ds. fst (getCacheKey rt h k s) = Inr v)"
      by (intro isValidEntry_deps_False) (simp add: recorded_deps_def)
    moreover from ch ds have "\<not> (\<forall>(k, v) \<in> set ds. fst (getCacheKey rt h k s) = Inr v)"
      by (auto simp: recorded_deps_def)
    ultimately show ?thesis using k ds by (simp add: isValidEntry_def)
  qed
  from a b show ?thesis by blast
qed


lemma sample_identity:
  "fst (getCacheKey sample_runtime sample_host ''/app/a.scss'' initial_state) = Inr ''8:200''"
  "fst (getCacheKey sample_runtime sample_host ''/app/a.html'' initial_state) = Inr ''7:100''"
  by (simp_all add: getCacheKey_def sample_runtime_def sample_host_def initial_state_def decimal.simps)

theorem isValidEntry_iff_witness:
  "cacheKey (sample_entry ''8:200'') = ''7:100'' \<and>
   recorded_deps (sample_entry ''8:200'') = [(''/app/a.scss'', ''8:200'')] \<and>
   fst (getCacheKey sample_runtime sample_host ''/app/a.scss'' initial_state) = Inr ''8:200'' \<and>
   fst (isValidEntry sample_runtime sample_host (sample_entry ''8:200'') ''7:100'' initial_state) = Inr True \<and>
   recorded_deps (sample_entry ''8:199'') = [(''/app/a.scss'', ''8:199'')] \<and>
   fst (isValidEntry sample_runtime sample_host (sample_entry ''8:199'') ''7:100'' initial_state) = Inr False"
proof -
  have k: "\<And>d. cacheKey (sample_entry d) = ''7:100''"
    and d: "\<And>d. recorded_deps (sample_entry d) = [(''/app/a.scss'', d)]"
    by (simp_all add: sample_entry_def recorded_deps_def)
  have t: "fst (isValidEntry sample_runtime sample_host (sample_entry ''8:200'') ''7:100'' initial_state) = Inr True"
    using isValidEntry_iff[of sample_runtime sample_host "sample_entry ''8:200''" "''7:100''" initial_state]
    by (simp add: k d sample_identity)
  have f: "fst (isValidEntry sample_runtime sample_host (sample_entry ''8:199'') ''7:100'' initial_state) = Inr False"
    using isValidEntry_iff[of sample_runtime sample_host "sample_entry ''8:199''" "''7:100''" initial_state]
    by (simp add: k d sample_identity)
  from k d t f sample_identity show ?thesis by simp
qed

text \<open>
  Claim C2 (the code departs from it). After a build start, two calls of \<open>getCacheKey\<close>
  for the same path both return the token, the memo holds nothing for the path after the
  first call, and the file has been stat'ed twice.
\<close>

theorem getCacheKey_stats_twice:
  "(case getCacheKey sample_runtime sample_host ''/app/a.html'' (onStart initial_state) of
      (r1, s1) \<Rightarrow>
        (case getCacheKey sample_runtime sample_host ''/app/a.html'' s1 of
           (r2, s2) \<Rightarrow>
             r1 = Inr ''7:100'' \<and> r2 = Inr ''7:100'' \<and>
             fileKeyCache s1 ''/app/a.html'' = None \<and>
             trace s2 = [StatCall ''/app/a.html'', StatCall ''/app/a.html'']))"
  by (simp add: getCacheKey_def onStart_def emit_def sample_runtime_def sample_host_def
        initial_state_def decimal.simps)

section \<open>The fingerprint, verified\<close>

lemma toSafe_append: "toSafe (xs @ ys) = toSafe xs @ toSafe ys"
  by (simp add: toSafe_def)

lemma toSafe_Cons: "toSafe (x # xs) = toSafe [x] @ toSafe xs"
  by (simp add: toSafe_def)









section \<open>Sub-resource requests, verified\<close>

text \<open>
  Claim C8. For a load request of a template with a non-empty suffix: when the template
  cache holds no entry for the path the handler fails with the error
  \<open>Unable to find parsed tamplate for <path>\<close> and changes nothing; when it holds one,
  the type is \<open>componentScript\<close> and the script at the requested index has non-empty
  content, the handler returns that content with the loader \<open>ts\<close> if the type of the script
  is \<open>ts\<close> or \<open>typescript\<close> and \<open>js\<close> otherwise, and changes nothing.
\<close>

theorem subresource_requests:
  "suffix args \<noteq> [] \<longrightarrow>
     (templateCache s (path args) = None \<longrightarrow>
        onLoad_html rt options h args s =
          (Inl (Error (''Unable to find parsed tamplate for '' @ path args)), s)) \<and>
     (\<forall>ct script c.
        templateCache s (path args) = Some ct \<and>
        query_get (URLSearchParams rt (suffix args)) ''type'' = Some ''componentScript'' \<and>
        at_index (scripts ct) (query_index rt (URLSearchParams rt (suffix args))) = Some script \<and>
        content script = Some c \<and> c \<noteq> [] \<longrightarrow>
        onLoad_html rt options h args s =
          (Inr (Some \<lparr>contents = c,
                      loader = (if type' script = ''ts'' \<or> type' script = ''typescript'' then TS else JS),
                      result_warnings = None, watchFiles = None\<rparr>), s))"
  by (auto simp: onLoad_html_def Let_def interpolate_def)

theorem subresource_requests_witness:
  "suffix \<lparr>path = ''/app/a.html'', suffix = ''?type=componentScript&i=0''\<rparr> \<noteq> [] \<and>
   templateCache initial_state ''/app/a.html'' = None \<and>
   onLoad_html sample_runtime sample_options sample_host
     \<lparr>path = ''/app/a.html'', suffix = ''?type=componentScript&i=0''\<rparr> initial_state =
     (Inl (Error ''Unable to find parsed tamplate for /app/a.html''), initial_state) \<and>
   templateCache sample_state ''/app/a.html'' = Some sample_template \<and>
   at_index (scripts sample_template)
     (query_index sample_runtime (URLSearchParams sample_runtime ''?type=componentScript&i=0'')) =
     Some \<lparr>url = None, content = Some ''let x = 1'', type' = ''ts''\<rparr> \<and>
   onLoad_html sample_runtime sample_options sample_host
     \<lparr>path = ''/app/a.html'', suffix = ''?type=componentScript&i=0''\<rparr> sample_state =
     (Inr (Some \<lparr>contents = ''let x = 1'', loader = TS, result_warnings = None, watchFiles = None\<rparr>),
      sample_state)"
proof -
  let ?args = "\<lparr>path = ''/app/a.html'', suffix = ''?type=componentScript&i=0''\<rparr>"
  let ?script = "\<lparr>url = None, content = Some ''let x = 1'', type' = ''ts''\<rparr>"
  have a: "suffix ?args \<noteq> []" by simp
  have b: "templateCache initial_state (path ?args) = None" by (simp add: initial_state_def)
  have c: "templateCache sample_state (path ?args) = Some sample_template"
    by (simp add: sample_state_def)
  have d: "query_get (URLSearchParams sample_runtime (suffix ?args)) ''type'' = Some ''componentScript''"
    by (simp add: sample_runtime_def query_get_def)
  have e: "at_index (scripts sample_template)
             (query_index sample_runtime (URLSearchParams sample_runtime (suffix ?args))) = Some ?script"
    by (simp add: sample_runtime_def sample_template_def query_index_def query_has_def query_get_def
          at_index_def)
  have f: "content ?script = Some ''let x = 1''" "''let x = 1'' \<noteq> []" by simp_all
  from subresource_requests[of ?args initial_state sample_runtime sample_options sample_host] a b
  have r1: "onLoad_html sample_runtime sample_options sample_host ?args initial_state =
      (Inl (Error (''Unable to find parsed tamplate for '' @ path ?args)), initial_state)"
    by blast
  from subresource_requests[of ?args sample_state sample_runtime sample_options sample_host] a c d e f
  have r2: "onLoad_html sample_runtime sample_options sample_host ?args sample_state =
      (Inr (Some \<lparr>contents = ''let x = 1'',
                  loader = (if type' ?script = ''ts'' \<or> type' ?script = ''typescript'' then TS else JS),
                  result_warnings = None, watchFiles = None\<rparr>), sample_state)"
    by blast
  from a b c e r1 r2 show ?thesis by simp
qed

lemma missing_inline_stylesheet_silent:
  "suffix args \<noteq> [] \<Longrightarrow> templateCache s (path args) = Some ct \<Longrightarrow>
   query_get (URLSearchParams rt (suffix args)) ''type'' = Some ''componentStylesheet'' \<Longrightarrow>
   (case at_index (styles ct) (query_index rt (URLSearchParams rt (suffix args))) of
      None \<Rightarrow> True | Some style \<Rightarrow> \<not> truthy (content style)) \<Longrightarrow>
   onLoad_html rt options h args s = (Inr None, s)"
  by (auto simp: onLoad_html_def Let_def split: option.splits)

text \<open>
  Claim C5 (the code departs from it). The cached template of \<open>/app/a.html\<close> has a
  stylesheet without inline content at index 0. The request
  \<open>/app/a.html?type=componentStylesheet&scope=e1B2M2Y8Asg&i=0\<close> returns nothing, raises
  nothing and leaves the state as it was: no warning is in the trace.
\<close>

theorem missing_inline_stylesheet_no_warning:
  "at_index (styles sample_template)
     (query_index sample_runtime
        (URLSearchParams sample_runtime ''?type=componentStylesheet&scope=e1B2M2Y8Asg&i=0'')) =
     Some \<lparr>url = Some ''/app/a.css'', content = None, type' = ''text/css''\<rparr> \<and>
   onLoad_html sample_runtime sample_options sample_host
     \<lparr>path = ''/app/a.html'', suffix = ''?type=componentStylesheet&scope=e1B2M2Y8Asg&i=0''\<rparr>
     sample_state = (Inr None, sample_state) \<and>
   filter is_warn_event (trace sample_state) = []"
  by (simp add: onLoad_html_def sample_runtime_def sample_state_def sample_template_def
        query_index_def query_has_def query_get_def at_index_def)

lemma usable_True_entry:
  "usable rt h entry key s = (Inr True, s') \<Longrightarrow> entry \<noteq> None"
  by (cases entry) (auto simp: usable_def)

lemma loadStylesheet_returns_entry:
  "loadStylesheet rt options h u src ty cache s = (Inr r, cache', s') \<Longrightarrow> r \<noteq> None"
  by (auto simp: loadStylesheet_def Let_def dest: usable_True_entry
        split: prod.splits sum.splits if_splits)

section \<open>Main loads and recompilation, verified\<close>

lemma stat_only_refl [simp]: "stat_only s s"
  unfolding stat_only_def by (intro exI[of _ "[]"]) simp

lemma stat_only_trans: "stat_only s s' \<Longrightarrow> stat_only s' s'' \<Longrightarrow> stat_only s s''"
  unfolding stat_only_def by (elim exE conjE, rule_tac x = "evs @ evsa" in exI) simp

lemma stat_only_emit [simp]: "stat_only s (emit (StatCall p) s)"
  unfolding stat_only_def emit_def by (intro exI[of _ "[StatCall p]"]) simp

lemma stat_only_caches:
  assumes "stat_only s s'"
  shows "templateCache s' = templateCache s" "styleCache s' = styleCache s"
    "fileKeyCache s' = fileKeyCache s" "hashes s' = hashes s"
  using assms unfolding stat_only_def by auto

lemma getCacheKey_stat_only: "stat_only s (snd (getCacheKey rt h p s))"
  by (simp add: getCacheKey_def split: option.splits)

lemma isValidEntry_deps_stat_only: "stat_only s (snd (isValidEntry_deps rt h ds s))"
proof (induction ds arbitrary: s)
  case Nil then show ?case by simp
next
  case (Cons d ds)
  obtain k v where d: "d = (k, v)" by (cases d)
  obtain r s' where g: "getCacheKey rt h k s = (r, s')" by (cases "getCacheKey rt h k s")
  then have st: "stat_only s s'" using getCacheKey_stat_only[of s rt h k] by simp
  show ?case
  proof (cases r)
    case (Inl e)
    with g d st show ?thesis by simp
  next
    case (Inr c)
    with g d st Cons.IH[of s'] show ?thesis
      by (auto intro: stat_only_trans)
  qed
qed

lemma isValidEntry_stat_only: "stat_only s (snd (isValidEntry rt h entry key s))"
  by (simp add: isValidEntry_def isValidEntry_deps_stat_only split: option.splits)

lemma usable_stat_only: "stat_only s (snd (usable rt h entry key s))"
  by (simp add: usable_def isValidEntry_stat_only split: option.splits)

lemma compileTemplate_entry:
  "compileTemplate rt h filePath key options s = (Inr ct, s') \<Longrightarrow>
   styleCache' ct = Map.empty \<and> cacheKey ct = key \<and> deps ct = None"
  by (auto simp: compileTemplate_def Let_def split: option.splits prod.splits sum.splits)

lemma usable_True:
  "usable rt h entry key s = (Inr True, s') \<Longrightarrow>
   \<exists>e. entry = Some e \<and> fst (isValidEntry rt h e key s) = Inr True"
  by (cases entry) (auto simp: usable_def)

lemma main_load_entry:
  assumes "suffix args = []" and "onLoad_html rt options h args s = (Inr out, s')"
  shows "\<exists>ct key. templateCache s' (path args) = Some ct \<and> out = Some (respond ct) \<and>
           fst (getCacheKey rt h (path args) s) = Inr key \<and> cacheKey ct = key \<and>
           (\<forall>(d, k) \<in> set (recorded_deps ct). fst (getCacheKey rt h d s) = Inr k) \<and>
           ((templateCache s (path args) = Some ct \<and> stat_only s s') \<or> styleCache' ct = Map.empty)"
proof -
  obtain r1 s1 where g: "getCacheKey rt h (path args) s = (r1, s1)"
    by (cases "getCacheKey rt h (path args) s")
  with assms obtain key where r1: "r1 = Inr key"
    by (cases r1) (auto simp: onLoad_html_def)
  have st1: "stat_only s s1" using g getCacheKey_stat_only[of s rt h "path args"] by simp
  obtain r2 s2 where u: "usable rt h (templateCache s (path args)) key s1 = (r2, s2)"
    by (cases "usable rt h (templateCache s (path args)) key s1")
  have st2: "stat_only s1 s2"
    using u usable_stat_only[of s1 rt h "templateCache s (path args)" key] by simp
  from assms g r1 u obtain ok where r2: "r2 = Inr ok"
    by (cases r2) (auto simp: onLoad_html_def)
  show ?thesis
  proof (cases ok)
    case True
    with u r2 have "usable rt h (templateCache s (path args)) key s1 = (Inr True, s2)" by simp
    from usable_True[OF this] obtain e where e: "templateCache s (path args) = Some e"
      and v: "fst (isValidEntry rt h e key s1) = Inr True" by blast
    from v have k: "cacheKey e = key"
      and dk: "\<forall>(d, k) \<in> set (recorded_deps e). fst (getCacheKey rt h d s1) = Inr k"
      using isValidEntry_True[of rt h e key s1] by auto
    have "\<And>d. fst (getCacheKey rt h d s1) = fst (getCacheKey rt h d s)"
      using stat_only_caches(3)[OF st1] by (rule getCacheKey_cong)
    with dk have dk': "\<forall>(d, k) \<in> set (recorded_deps e). fst (getCacheKey rt h d s) = Inr k" by simp
    have s': "s' = s2" "out = Some (respond e)"
      using assms g r1 u r2 True e by (auto simp: onLoad_html_def)
    have "stat_only s s'" using st1 st2 s' by (auto intro: stat_only_trans)
    with e k dk' s' g r1 stat_only_caches(1)[OF this] show ?thesis by simp
  next
    case False
    with assms g r1 u r2 obtain ct s3 where
      c: "compileTemplate rt h (path args) key options s2 = (Inr ct, s3)"
      and o: "out = Some (respond ct)" "s' = s3\<lparr>templateCache := (templateCache s3)(path args \<mapsto> ct)\<rparr>"
      by (auto simp: onLoad_html_def split: prod.splits sum.splits)
    from compileTemplate_entry[OF c] o g r1 show ?thesis by (simp add: recorded_deps_def)
  qed
qed

text \<open>
  Claim C9. Every entry that \<open>compileTemplate\<close> returns has an empty style cache (and the
  key it was given). After a successful main load of a template the cache holds, for its
  path, the entry whose code was returned; that entry is the one held before or one with
  an empty style cache; and when the entry held before was compiled for another key than
  the file has now, it has been replaced by an entry with the current key and an empty
  style cache, so that nothing cached under the earlier compile is reachable.
\<close>

theorem styleCache_fresh_on_recompile:
  "(compileTemplate rt h filePath key options s = (Inr ct, st) \<longrightarrow>
      styleCache' ct = Map.empty \<and> cacheKey ct = key) \<and>
   (suffix args = [] \<and> onLoad_html rt options h args s = (Inr out, s') \<longrightarrow>
      (\<exists>ct'. templateCache s' (path args) = Some ct' \<and> out = Some (respond ct') \<and>
             (templateCache s (path args) = Some ct' \<or> styleCache' ct' = Map.empty) \<and>
             (\<forall>old. templateCache s (path args) = Some old \<and>
                    fst (getCacheKey rt h (path args) s) \<noteq> Inr (cacheKey old) \<longrightarrow>
                    styleCache' ct' = Map.empty \<and>
                    fst (getCacheKey rt h (path args) s) = Inr (cacheKey ct'))))"
proof -
  have a: "compileTemplate rt h filePath key options s = (Inr ct, st) \<longrightarrow>
      styleCache' ct = Map.empty \<and> cacheKey ct = key"
    using compileTemplate_entry by blast
  have b: "\<exists>ct'. templateCache s' (path args) = Some ct' \<and> out = Some (respond ct') \<and>
             (templateCache s (path args) = Some ct' \<or> styleCache' ct' = Map.empty) \<and>
             (\<forall>old. templateCache s (path args) = Some old \<and>
                    fst (getCacheKey rt h (path args) s) \<noteq> Inr (cacheKey old) \<longrightarrow>
                    styleCache' ct' = Map.empty \<and>
                    fst (getCacheKey rt h (path args) s) = Inr (cacheKey ct'))"
    if "suffix args = []" "onLoad_html rt options h args s = (Inr out, s')"
  proof -
    from main_load_entry[OF that] obtain ct' key' where
      e: "templateCache s' (path args) = Some ct'" "out = Some (respond ct')"
        "fst (getCacheKey rt h (path args) s) = Inr key'" "cacheKey ct' = key'"
        "(templateCache s (path args) = Some ct' \<and> stat_only s s') \<or> styleCache' ct' = Map.empty"
      by blast
    then show ?thesis by (intro exI[of _ ct']) auto
  qed
  from a b show ?thesis by blast
qed

lemma stale_load:
  "onLoad_html sample_runtime sample_options sample_host \<lparr>path = ''/app/a.html'', suffix = []\<rparr> stale_state
   = (Inr (Some (respond sample_template)),
      sample_state\<lparr>trace := trace sample_state @
         [StatCall ''/app/a.html'', ReadCall ''/app/a.html'',
          ParseCall ''/app/a.html'', GenerateCall ''/app/a.html'']\<rparr>)"
  by (simp add: onLoad_html_def getCacheKey_def usable_def isValidEntry_def compileTemplate_def
     sample_runtime_def stale_state_def
     sample_host_def sample_options_def initial_state_def sample_state_def sample_template_def
     createPlugin_options_def defaultComponentName_def emit_def decimal.simps respond_def
     normalize_def stripRoot_def startsWith_def createScopeSuffix_def safeBase64Hash_def Let_def
     hash_length_def toSafe_def digest_base64_def sextet_def base64_alphabet_def replacements_def
     spread_def spread_key_def value_of_def script_header_def style_header_def interpolate_def getComponentResource_def
     clear_inline_scripts_def collect_warnings_def enumerate_eq_zip List.map_filter_def)


lemma sample_defs_eval:
  "templateCache stale_state ''/app/a.html'' =
     Some (sample_template\<lparr>cacheKey := ''7:99'',
              styleCache' := [''/app/a.html?type=componentStylesheet&i=1'' \<mapsto> sample_entry ''8:200'']\<rparr>)"
  "fst (getCacheKey sample_runtime sample_host ''/app/a.html'' stale_state) = Inr ''7:100''"
  by (simp_all add: stale_state_def sample_state_def getCacheKey_def sample_runtime_def
        sample_host_def decimal.simps)

lemma compile_sample:
  "compileTemplate sample_runtime sample_host ''/app/a.html'' ''7:100'' sample_options
     (emit (StatCall ''/app/a.html'') initial_state) =
     (Inr sample_template, sample_state\<lparr>templateCache := Map.empty\<rparr>)"
  by (simp add: compileTemplate_def sample_runtime_def
     sample_host_def sample_options_def initial_state_def sample_state_def sample_template_def
     createPlugin_options_def defaultComponentName_def emit_def respond_def
     normalize_def stripRoot_def startsWith_def createScopeSuffix_def safeBase64Hash_def Let_def
     hash_length_def toSafe_def digest_base64_def sextet_def base64_alphabet_def replacements_def
     spread_def spread_key_def value_of_def script_header_def style_header_def interpolate_def getComponentResource_def
     clear_inline_scripts_def collect_warnings_def enumerate_eq_zip List.map_filter_def decimal.simps)

theorem styleCache_fresh_on_recompile_witness:
  "compileTemplate sample_runtime sample_host ''/app/a.html'' ''7:100'' sample_options
     (emit (StatCall ''/app/a.html'') initial_state) =
     (Inr sample_template, sample_state\<lparr>templateCache := Map.empty\<rparr>) \<and>
   styleCache' sample_template = Map.empty \<and> cacheKey sample_template = ''7:100'' \<and>
   suffix \<lparr>path = ''/app/a.html'', suffix = []\<rparr> = [] \<and>
   (\<exists>old. templateCache stale_state ''/app/a.html'' = Some old \<and>
          styleCache' old \<noteq> Map.empty \<and>
          fst (getCacheKey sample_runtime sample_host ''/app/a.html'' stale_state) \<noteq> Inr (cacheKey old)) \<and>
   (\<exists>out s' ct'.
      onLoad_html sample_runtime sample_options sample_host
        \<lparr>path = ''/app/a.html'', suffix = []\<rparr> stale_state = (Inr out, s') \<and>
      templateCache s' ''/app/a.html'' = Some ct' \<and> out = Some (respond ct') \<and>
      styleCache' ct' = Map.empty \<and> cacheKey ct' = ''7:100'')"
proof -
  let ?args = "\<lparr>path = ''/app/a.html'', suffix = []\<rparr>"
  let ?old = "sample_template\<lparr>cacheKey := ''7:99'',
              styleCache' := [''/app/a.html?type=componentStylesheet&i=1'' \<mapsto> sample_entry ''8:200'']\<rparr>"
  let ?s' = "sample_state\<lparr>trace := trace sample_state @
         [StatCall ''/app/a.html'', ReadCall ''/app/a.html'',
          ParseCall ''/app/a.html'', GenerateCall ''/app/a.html'']\<rparr>"
  note inst = styleCache_fresh_on_recompile[where rt = sample_runtime and h = sample_host
      and filePath = "''/app/a.html''" and key = "''7:100''" and options = sample_options
      and s = "emit (StatCall ''/app/a.html'') initial_state" and ct = sample_template
      and st = "sample_state\<lparr>templateCache := Map.empty\<rparr>"]
  from inst compile_sample have c: "styleCache' sample_template = Map.empty \<and> cacheKey sample_template = ''7:100''"
    by blast
  have old: "templateCache stale_state (path ?args) = Some ?old"
    "styleCache' ?old \<noteq> Map.empty"
    "fst (getCacheKey sample_runtime sample_host (path ?args) stale_state) \<noteq> Inr (cacheKey ?old)"
    by (simp_all add: sample_defs_eval)
  have sfx: "suffix ?args = []" by simp
  from styleCache_fresh_on_recompile[where rt = sample_runtime and h = sample_host
      and options = sample_options and args = ?args and s = stale_state
      and out = "Some (respond sample_template)" and s' = ?s'] sfx stale_load
  obtain ct' where ct': "templateCache ?s' (path ?args) = Some ct'"
    "Some (respond sample_template) = Some (respond ct')"
    "\<forall>old. templateCache stale_state (path ?args) = Some old \<and>
           fst (getCacheKey sample_runtime sample_host (path ?args) stale_state) \<noteq> Inr (cacheKey old) \<longrightarrow>
           styleCache' ct' = Map.empty \<and>
           fst (getCacheKey sample_runtime sample_host (path ?args) stale_state) = Inr (cacheKey ct')"
    by blast
  from ct'(3) old have fresh: "styleCache' ct' = Map.empty"
    "fst (getCacheKey sample_runtime sample_host (path ?args) stale_state) = Inr (cacheKey ct')"
    by blast+
  from fresh(2) have "cacheKey ct' = ''7:100''" by (simp add: sample_defs_eval)
  with ct' fresh stale_load have "\<exists>out s' ct'.
      onLoad_html sample_runtime sample_options sample_host ?args stale_state = (Inr out, s') \<and>
      templateCache s' ''/app/a.html'' = Some ct' \<and> out = Some (respond ct') \<and>
      styleCache' ct' = Map.empty \<and> cacheKey ct' = ''7:100''"
    by (intro exI[of _ "Some (respond sample_template)"] exI[of _ ?s'] exI[of _ ct']) simp
  moreover from old have "\<exists>old. templateCache stale_state ''/app/a.html'' = Some old \<and>
          styleCache' old \<noteq> Map.empty \<and>
          fst (getCacheKey sample_runtime sample_host ''/app/a.html'' stale_state) \<noteq> Inr (cacheKey old)"
    by (intro exI[of _ ?old]) simp
  ultimately show ?thesis using c compile_sample sfx by blast
qed

section \<open>Repeated loads of unchanged files, verified\<close>




























section \<open>Component names and scope tokens\<close>

lemma createScopeSuffix_token:
  "fst (createScopeSuffix rt p hs) = CHR ''e'' # fst (safeBase64Hash (md5 rt) p hs)"
  by (simp add: createScopeSuffix_def split: prod.splits)

lemma defaultComponentName_index:
  "path_basename rt ident (path_extname rt ident) = ''index'' \<Longrightarrow>
   defaultComponentName rt ident = path_dirname rt ident"
  by (simp add: defaultComponentName_def)

text \<open>
  Claim C6 (the code departs from it). With no \<open>componentName\<close> option the plugin uses
  the default function. With POSIX paths, for \<open>components/button/index.html\<close> the default
  returns \<open>components/button\<close>, the whole directory path from \<open>path.dirname\<close>, and not
  \<open>button\<close>; the path \<open>compileTemplate\<close> passes for a file under the root \<open>/app\<close> keeps its
  leading separator and gives \<open>/components/button\<close>. The scope token is the letter \<open>e\<close>
  followed by the fingerprint of that root-stripped path.
\<close>

theorem defaultComponentName_index_file:
  "componentName (createPlugin_options sample_runtime \<lparr>template = None, componentName = Absent\<rparr>) =
     Value (defaultComponentName sample_runtime) \<and>
   defaultComponentName sample_runtime ''components/button/index.html'' = ''components/button'' \<and>
   defaultComponentName sample_runtime ''components/button/index.html'' \<noteq> ''button'' \<and>
   normalize sample_runtime ''/app/components/button/index.html'' ''/app'' =
     ''/components/button/index.html'' \<and>
   defaultComponentName sample_runtime ''/components/button/index.html'' = ''/components/button'' \<and>
   fst (createScopeSuffix sample_runtime ''/components/button/index.html'' Map.empty) =
     CHR ''e'' # fst (safeBase64Hash (md5 sample_runtime) ''/components/button/index.html'' Map.empty)"
  by (simp add: createPlugin_options_def defaultComponentName_def sample_runtime_def
        posix_basename_def posix_extname_def posix_dirname_def last_segment_def endsWith_def
        normalize_def stripRoot_def startsWith_def createScopeSuffix_def Let_def
        split: prod.splits)

end
